theory Spec2Isabelle
  imports Main
begin

section \<open>JavaScript values\<close>

text \<open>
  The controller (the React component \<open>App\<close>) stores in its state whatever the backend
  sent, with no validation, so the model keeps the values of the parsed JSON body as they
  are. \<open>JUndefined\<close> is what reading a missing property yields. Numbers are modelled as
  integers: the code only tests them for truthiness, compares them with 0 and prints them.
  Strings are lists of 8-bit characters, one \<open>char\<close> per code unit.
\<close>

datatype jsval =
    JUndefined
  | JNull
  | JBool bool
  | JNum int
  | JStr string
  | JArr "jsval list"
  | JObj "(string \<times> jsval) list"

text \<open>
  The errors of the model: the engine's \<open>TypeError\<close>, and the error that React throws for
  a child it cannot render (``Objects are not valid as a React child'').
\<close>

datatype js_error = TypeError | InvalidChild

text \<open>The truthiness test of \<open>if (v)\<close>, \<open>v && e\<close>, \<open>v || e\<close> and \<open>!v\<close>.\<close>

fun truthy :: "jsval \<Rightarrow> bool" where
  "truthy JUndefined = False"
| "truthy JNull = False"
| "truthy (JBool b) = b"
| "truthy (JNum n) = (n \<noteq> 0)"
| "truthy (JStr s) = (s \<noteq> [])"
| "truthy (JArr xs) = True"
| "truthy (JObj kvs) = True"

fun nullish :: "jsval \<Rightarrow> bool" where
  "nullish JUndefined = True"
| "nullish JNull = True"
| "nullish v = False"

text \<open>
  \<open>js_prop v k\<close> is \<open>v.k\<close> for a value that is neither \<open>undefined\<close> nor \<open>null\<close>. It
  is only used with the identifier keys of the source (\<open>is_complete\<close>, \<open>status\<close>,
  \<open>extracted_data\<close>, \<open>length\<close>, ...), none of which is found on a prototype except
  \<open>length\<close> of arrays and strings. An object is the association list of its own
  properties.
\<close>

fun js_prop :: "jsval \<Rightarrow> string \<Rightarrow> jsval" where
  "js_prop (JObj kvs) k = (case map_of kvs k of None \<Rightarrow> JUndefined | Some v \<Rightarrow> v)"
| "js_prop (JArr xs) k = (if k = ''length'' then JNum (int (length xs)) else JUndefined)"
| "js_prop (JStr s) k = (if k = ''length'' then JNum (int (length s)) else JUndefined)"
| "js_prop v k = JUndefined"

text \<open>Property access as the engine performs it: it throws on \<open>undefined\<close> and \<open>null\<close>.\<close>

definition get_prop :: "jsval \<Rightarrow> string \<Rightarrow> js_error + jsval" where
  "get_prop v k = (if nullish v then Inl TypeError else Inr (js_prop v k))"

subsection \<open>Strings\<close>

text \<open>
  \<open>String.prototype.trim\<close> removes white space and line terminators from both ends.
  Within the 8-bit range these are the code units 9 to 13, 32 and 160.
\<close>

definition is_ws :: "char \<Rightarrow> bool" where
  "is_ws c = (let n = (of_char c :: nat) in (9 \<le> n \<and> n \<le> 13) \<or> n = 32 \<or> n = 160)"

definition trim :: "string \<Rightarrow> string" where
  "trim s = rev (dropWhile is_ws (rev (dropWhile is_ws s)))"

text \<open>\<open>Array.prototype.join\<close> on an array of strings.\<close>

fun js_join :: "string \<Rightarrow> string list \<Rightarrow> string" where
  "js_join sep [] = []"
| "js_join sep (x # xs) = foldl (\<lambda>acc y. acc @ sep @ y) x xs"

definition digit_char :: "nat \<Rightarrow> char" where
  "digit_char d = ''0123456789'' ! d"

fun show_nat :: "nat \<Rightarrow> string" where
  "show_nat n = (if n < 10 then [digit_char n] else show_nat (n div 10) @ [digit_char (n mod 10)])"

definition show_int :: "int \<Rightarrow> string" where
  "show_int i = (if i < 0 then CHR ''-'' # show_nat (nat (- i)) else show_nat (nat i))"

text \<open>The conversion to string that a template literal \<open>`${v}`\<close> applies.\<close>

fun js_to_string :: "jsval \<Rightarrow> string" where
  "js_to_string JUndefined = ''undefined''"
| "js_to_string JNull = ''null''"
| "js_to_string (JBool b) = (if b then ''true'' else ''false'')"
| "js_to_string (JNum n) = show_int n"
| "js_to_string (JStr s) = s"
| "js_to_string (JArr xs) =
     js_join '','' (map (\<lambda>x. if nullish x then [] else js_to_string x) xs)"
| "js_to_string (JObj kvs) = ''[object Object]''"

section \<open>The controller's state\<close>

text \<open>
  One field per \<open>useState\<close> hook of \<open>App\<close>, in the order of the source.
  \<open>questionAnswers\<close> is the object that maps a question index to the text typed for it.
  \<open>followUpQuestions\<close>, \<open>extractedData\<close> and \<open>webResearchResults\<close> hold what the
  backend sent.
\<close>

record app_state =
  symptoms :: string
  charCount :: nat
  isLoading :: bool
  conversationComplete :: bool
  followUpQuestions :: jsval
  threadId :: string
  questionAnswers :: "nat \<rightharpoonup> string"
  extractedData :: jsval
  showExtractedData :: bool
  webResearchResults :: jsval

text \<open>
  The initial values of the hooks. The thread identifier is \<open>`thread_${Date.now()}`\<close>,
  computed by the lazy initialiser when the component mounts; \<open>now\<close> is the clock
  reading then. \<open>threadId\<close> has no setter.
\<close>

definition initial_state :: "nat \<Rightarrow> app_state" where
  "initial_state now =
     \<lparr> symptoms = [], charCount = 0, isLoading = False, conversationComplete = False,
       followUpQuestions = JArr [], threadId = ''thread_'' @ show_nat now,
       questionAnswers = Map.empty, extractedData = JObj [], showExtractedData = False,
       webResearchResults = JObj [] \<rparr>"

section \<open>The API client\<close>

text \<open>
  A request is the path posted to and the JSON body, whose fields are strings in every
  call. \<open>apiEndpoints\<close> of \<open>services/api.js\<close> builds them.
\<close>

datatype request = Post string "(string \<times> string) list"

definition analyzeSymptoms :: "string \<Rightarrow> string \<Rightarrow> request" where
  "analyzeSymptoms sy tid = Post ''/api/analyze'' [(''symptoms'', sy), (''thread_id'', tid)]"

definition debugFunctionality :: "string \<Rightarrow> request" where
  "debugFunctionality sy = Post ''/api/research-debug'' [(''symptom'', sy)]"

definition webResearch :: "string \<Rightarrow> request" where
  "webResearch tid = Post ''/api/web-research'' [(''thread_id'', tid)]"

fun thread_of :: "request \<Rightarrow> string option" where
  "thread_of (Post path body) = map_of body ''thread_id''"

fun path_of :: "request \<Rightarrow> string" where
  "path_of (Post path body) = path"

text \<open>
  What the awaited call ends with: the promise resolves with a response whose \<open>data\<close> is
  the parsed body, or it is rejected. A rejection carries \<open>error.response\<close> (the server
  answered with an error status; the argument is \<open>error.response.data\<close>), or only
  \<open>error.request\<close> (no answer came), or neither.
\<close>

datatype net_error = ServerError jsval | NoResponse | OtherError

datatype reply = Resolved jsval | Rejected net_error

section \<open>The handlers\<close>

text \<open>
  A handler invocation is modelled from the click to the end of its \<open>finally\<close> block:
  it takes the state the component had when the handler was created and what the awaited
  call ended with, and yields the state after all its setters, the requests it issued, the
  texts it passed to \<open>alert\<close>, and an exception that left the handler if there was one.
  The state setters that ran before an exception was thrown keep their effect. No other
  handler runs between the click and the end of the invocation: the button that started
  it is disabled while \<open>isLoading\<close> is set.
\<close>

record outcome =
  new_state :: app_state
  requests :: "request list"
  alerts :: "string list"
  uncaught :: "js_error option"

definition handleInputChange :: "app_state \<Rightarrow> string \<Rightarrow> app_state" where
  "handleInputChange s v = s\<lparr> symptoms := v, charCount := length v \<rparr>"

definition handleQuestionAnswerChange :: "app_state \<Rightarrow> nat \<Rightarrow> string \<Rightarrow> app_state" where
  "handleQuestionAnswerChange s questionIndex v =
     s\<lparr> questionAnswers := (questionAnswers s)(questionIndex \<mapsto> v) \<rparr>"

text \<open>The \<open>catch\<close> block of \<open>handleSubmit\<close> chooses the text of the alert.\<close>

fun analyze_error_message :: "net_error \<Rightarrow> string" where
  "analyze_error_message (ServerError d) =
     ''Analysis failed: '' @
       (let detail = (if nullish d then JUndefined else js_prop d ''detail'')
        in if truthy detail then js_to_string detail else ''Server error'')"
| "analyze_error_message NoResponse = ''No response from server. Please check your connection.''"
| "analyze_error_message OtherError = ''Analysis failed. Please try again.''"

text \<open>
  The statements of the \<open>try\<close> block of \<open>handleSubmit\<close> after the \<open>await\<close>: the state
  when the block is left, and the exception thrown, if any. Reading \<open>is_complete\<close> from a
  body that is \<open>null\<close> throws before any setter has run.
\<close>

definition handleSubmit_try :: "app_state \<Rightarrow> jsval \<Rightarrow> app_state \<times> js_error option" where
  "handleSubmit_try s d =
     (case get_prop d ''is_complete'' of
        Inl e \<Rightarrow> (s, Some e)
      | Inr c \<Rightarrow>
          if truthy c then
            (s\<lparr> conversationComplete := True, followUpQuestions := JArr [],
                extractedData := js_prop d ''extracted_data'', showExtractedData := False \<rparr>, None)
          else if js_prop d ''status'' = JStr ''extracted'' then
            (s\<lparr> showExtractedData := True, extractedData := js_prop d ''extracted_data'',
                followUpQuestions := JArr [] \<rparr>, None)
          else
            (s\<lparr> followUpQuestions := js_prop d ''follow_up_questions'', symptoms := [],
                charCount := 0, questionAnswers := Map.empty, showExtractedData := False \<rparr>, None))"

definition handleSubmit :: "app_state \<Rightarrow> reply \<Rightarrow> outcome" where
  "handleSubmit s r =
     (if trim (symptoms s) = [] then
        \<lparr> new_state = s, requests = [], alerts = [''Please describe your symptoms.''],
          uncaught = None \<rparr>
      else
        let s1 = s\<lparr> isLoading := True \<rparr>;
            req = analyzeSymptoms (symptoms s) (threadId s)
        in (case r of
              Rejected err \<Rightarrow>
                \<lparr> new_state = s1\<lparr> isLoading := False \<rparr>, requests = [req],
                  alerts = [analyze_error_message err], uncaught = None \<rparr>
            | Resolved d \<Rightarrow>
                (case handleSubmit_try s1 d of
                   (s2, Some e) \<Rightarrow>
                     \<lparr> new_state = s2\<lparr> isLoading := False \<rparr>, requests = [req],
                       alerts = [analyze_error_message OtherError], uncaught = None \<rparr>
                 | (s2, None) \<Rightarrow>
                     \<lparr> new_state = s2\<lparr> isLoading := False \<rparr>, requests = [req],
                       alerts = [], uncaught = None \<rparr>)))"

text \<open>
  \<open>handleFollowUpSubmit\<close>. The filter's callback tests the answer stored under the index
  of each question: \<open>!questionAnswers[index] || !questionAnswers[index].trim()\<close>.
\<close>

definition unanswered :: "(nat \<rightharpoonup> string) \<Rightarrow> nat \<Rightarrow> bool" where
  "unanswered qa i = (case qa i of None \<Rightarrow> True | Some a \<Rightarrow> a = [] \<or> trim a = [])"

text \<open>The template literal of one question and its answer.\<close>

definition qa_block :: "(nat \<rightharpoonup> string) \<Rightarrow> nat \<times> jsval \<Rightarrow> string" where
  "qa_block qa iq =
     ''Q: '' @ js_to_string (snd iq) @ [CHR 0x0A] @ ''A: '' @
       (case qa (fst iq) of None \<Rightarrow> ''undefined'' | Some a \<Rightarrow> a)"

definition combinedAnswers :: "jsval list \<Rightarrow> (nat \<rightharpoonup> string) \<Rightarrow> string" where
  "combinedAnswers qs qa = js_join [CHR 0x0A, CHR 0x0A] (map (qa_block qa) (enumerate 0 qs))"

definition handleFollowUpSubmit_try :: "app_state \<Rightarrow> jsval \<Rightarrow> app_state \<times> js_error option" where
  "handleFollowUpSubmit_try s d =
     (case get_prop d ''is_complete'' of
        Inl e \<Rightarrow> (s, Some e)
      | Inr c \<Rightarrow>
          if truthy c then
            (s\<lparr> conversationComplete := True, followUpQuestions := JArr [],
                extractedData := js_prop d ''extracted_data'', showExtractedData := False \<rparr>, None)
          else if js_prop d ''status'' = JStr ''extracted'' then
            (s\<lparr> showExtractedData := True, extractedData := js_prop d ''extracted_data'',
                followUpQuestions := JArr [] \<rparr>, None)
          else
            (s\<lparr> followUpQuestions := js_prop d ''follow_up_questions'',
                questionAnswers := Map.empty, showExtractedData := False \<rparr>, None))"

text \<open>
  Only an array has \<open>filter\<close>: on any other value of \<open>followUpQuestions\<close> the first
  statement throws, outside the \<open>try\<close> block.
\<close>

definition handleFollowUpSubmit :: "app_state \<Rightarrow> reply \<Rightarrow> outcome" where
  "handleFollowUpSubmit s r =
     (case followUpQuestions s of
        JArr qs \<Rightarrow>
          let unansweredQuestions =
                map snd (filter (\<lambda>(index, _). unanswered (questionAnswers s) index) (enumerate 0 qs))
          in if length unansweredQuestions > 0 then
               \<lparr> new_state = s, requests = [],
                 alerts = [''Please answer all questions before submitting.''], uncaught = None \<rparr>
             else
               let s1 = s\<lparr> isLoading := True \<rparr>;
                   req = analyzeSymptoms (combinedAnswers qs (questionAnswers s)) (threadId s)
               in (case r of
                     Rejected err \<Rightarrow>
                       \<lparr> new_state = s1\<lparr> isLoading := False \<rparr>, requests = [req],
                         alerts = [''Failed to submit answers. Please try again.''],
                         uncaught = None \<rparr>
                   | Resolved d \<Rightarrow>
                       (case handleFollowUpSubmit_try s1 d of
                          (s2, Some e) \<Rightarrow>
                            \<lparr> new_state = s2\<lparr> isLoading := False \<rparr>, requests = [req],
                              alerts = [''Failed to submit answers. Please try again.''],
                              uncaught = None \<rparr>
                        | (s2, None) \<Rightarrow>
                            \<lparr> new_state = s2\<lparr> isLoading := False \<rparr>, requests = [req],
                              alerts = [], uncaught = None \<rparr>))
      | _ \<Rightarrow> \<lparr> new_state = s, requests = [], alerts = [], uncaught = Some TypeError \<rparr>)"

text \<open>
  \<open>handleWebResearch\<close> sets the two flags before it reads \<open>extracted_data\<close>, and it
  stores \<open>web_research_results || {}\<close>.
\<close>

definition handleWebResearch_try :: "app_state \<Rightarrow> jsval \<Rightarrow> app_state \<times> js_error option" where
  "handleWebResearch_try s d =
     (let s1 = s\<lparr> conversationComplete := True, showExtractedData := False \<rparr>
      in case get_prop d ''extracted_data'' of
           Inl e \<Rightarrow> (s1, Some e)
         | Inr ed \<Rightarrow>
             (s1\<lparr> extractedData := ed,
                  webResearchResults :=
                    (let wr = js_prop d ''web_research_results''
                     in if truthy wr then wr else JObj []) \<rparr>, None))"

definition handleWebResearch :: "app_state \<Rightarrow> reply \<Rightarrow> outcome" where
  "handleWebResearch s r =
     (let s1 = s\<lparr> isLoading := True \<rparr>;
          req = webResearch (threadId s)
      in (case r of
            Rejected err \<Rightarrow>
              \<lparr> new_state = s1\<lparr> isLoading := False \<rparr>, requests = [req],
                alerts = [''Web research failed. Please try again.''], uncaught = None \<rparr>
          | Resolved d \<Rightarrow>
              (case handleWebResearch_try s1 d of
                 (s2, Some e) \<Rightarrow>
                   \<lparr> new_state = s2\<lparr> isLoading := False \<rparr>, requests = [req],
                     alerts = [''Web research failed. Please try again.''], uncaught = None \<rparr>
               | (s2, None) \<Rightarrow>
                   \<lparr> new_state = s2\<lparr> isLoading := False \<rparr>, requests = [req],
                     alerts = [], uncaught = None \<rparr>)))"

definition resetConversation :: "app_state \<Rightarrow> app_state" where
  "resetConversation s =
     s\<lparr> symptoms := [], charCount := 0, conversationComplete := False,
        followUpQuestions := JArr [], questionAnswers := Map.empty, extractedData := JObj [],
        showExtractedData := False, webResearchResults := JObj [] \<rparr>"

section \<open>What the component renders\<close>

text \<open>
  What the user sees of a state, in two steps as in the code. First the component function
  evaluates its JSX: which of the three \<open>return\<close> statements is taken, and the values
  placed in the tree; reading a property of \<open>undefined\<close> or calling \<open>join\<close> or \<open>map\<close>
  on a value that has none throws a \<open>TypeError\<close> there. Then React renders the tree
  and throws on a child it cannot render.
\<close>

datatype stage = Complete | Extracted | Collecting

definition stage_of :: "app_state \<Rightarrow> stage" where
  "stage_of s =
     (if conversationComplete s then Complete
      else if showExtractedData s then Extracted
      else Collecting)"

subsection \<open>React children\<close>

text \<open>
  A value placed in the tree as \<open>{v}\<close>: \<open>undefined\<close>, \<open>null\<close> and booleans render
  nothing, a string renders its text, a number its digits (also the number 0), an array
  its elements in order, and a plain object makes React throw.
\<close>

fun valid_child :: "jsval \<Rightarrow> bool" where
  "valid_child (JObj kvs) = False"
| "valid_child (JArr xs) = list_all valid_child xs"
| "valid_child v = True"

fun child_text :: "jsval \<Rightarrow> string" where
  "child_text (JNum n) = show_int n"
| "child_text (JStr s) = s"
| "child_text (JArr xs) = concat (map child_text xs)"
| "child_text v = []"

text \<open>\<open>xs.join(sep)\<close> on an array of any values: \<open>undefined\<close> and \<open>null\<close> give the empty text.\<close>

definition array_join :: "string \<Rightarrow> jsval list \<Rightarrow> string" where
  "array_join sep xs = js_join sep (map (\<lambda>x. if nullish x then [] else js_to_string x) xs)"

text \<open>
  The places of the tree that depend on the state. \<open>Item k c\<close> is the block
  \<open><div className="result-item">\<close> of field \<open>k\<close> with the child \<open>c\<close> after its label,
  \<open>Bullets k cs\<close> the block with one \<open><li>\<close> per child, and \<open>Bare v\<close> the value that a
  guard \<open>v && ...\<close> leaves in the tree when it does not pass.
\<close>

datatype elem = Item string jsval | Bullets string "jsval list" | Bare jsval

text \<open>
  \<open>{extractedData.k && (<div>... {extractedData.k.join(', ')}</div>)}\<close>: only an array has
  \<open>join\<close>.
\<close>

definition joined_item :: "jsval \<Rightarrow> string \<Rightarrow> js_error + elem" where
  "joined_item ed k =
     (case get_prop ed k of
        Inl e \<Rightarrow> Inl e
      | Inr v \<Rightarrow>
          if truthy v
          then (case v of JArr xs \<Rightarrow> Inr (Item k (JStr (array_join '', '' xs))) | _ \<Rightarrow> Inl TypeError)
          else Inr (Bare v))"

text \<open>\<open>{extractedData.k && (<div>... {extractedData.k}</div>)}\<close>\<close>

definition plain_item :: "jsval \<Rightarrow> string \<Rightarrow> js_error + elem" where
  "plain_item ed k =
     (case get_prop ed k of
        Inl e \<Rightarrow> Inl e
      | Inr v \<Rightarrow> if truthy v then Inr (Item k v) else Inr (Bare v))"

text \<open>The five blocks under ``Your Symptom Information'' and ``Extracted Information''.\<close>

definition extracted_items :: "jsval \<Rightarrow> js_error + elem list" where
  "extracted_items ed =
     (case joined_item ed ''parsed_symptoms'' of Inl e \<Rightarrow> Inl e | Inr i1 \<Rightarrow>
      case joined_item ed ''body_parts_affected'' of Inl e \<Rightarrow> Inl e | Inr i2 \<Rightarrow>
      case plain_item ed ''time_since_start'' of Inl e \<Rightarrow> Inl e | Inr i3 \<Rightarrow>
      case plain_item ed ''evolution_of_symptoms'' of Inl e \<Rightarrow> Inl e | Inr i4 \<Rightarrow>
      case joined_item ed ''medical_checks'' of Inl e \<Rightarrow> Inl e | Inr i5 \<Rightarrow>
        Inr [i1, i2, i3, i4, i5])"

subsection \<open>The research results\<close>

text \<open>
  The comparison \<open>x.length > 0\<close> converts \<open>x.length\<close> to a number. For a number, a boolean,
  \<open>null\<close>, \<open>undefined\<close> and a plain object the outcome is written out. For a string or
  an array the engine parses the text of the value as a numeric literal; that outcome is
  the parameter \<open>pos\<close> of the render, and everything proved holds for every \<open>pos\<close>.
\<close>

fun js_gt0 :: "(jsval \<Rightarrow> bool) \<Rightarrow> jsval \<Rightarrow> bool" where
  "js_gt0 pos (JNum n) = (n > 0)"
| "js_gt0 pos (JBool b) = b"
| "js_gt0 pos (JStr s) = pos (JStr s)"
| "js_gt0 pos (JArr xs) = pos (JArr xs)"
| "js_gt0 pos v = False"

text \<open>\<open>Object.keys(v).length\<close>: the own enumerable keys of an object, an array or a string.\<close>

fun own_key_count :: "jsval \<Rightarrow> js_error + nat" where
  "own_key_count JUndefined = Inl TypeError"
| "own_key_count JNull = Inl TypeError"
| "own_key_count (JObj kvs) = Inr (length (remdups (map fst kvs)))"
| "own_key_count (JArr xs) = Inr (length xs)"
| "own_key_count (JStr s) = Inr (length s)"
| "own_key_count v = Inr 0"

text \<open>
  \<open>{r.k && r.k.length > 0 && (<div>... {r.k.join(', ')}</div>)}\<close> and the same guard before
  \<open>r.k.map(x => <li>{x}</li>)\<close>.
\<close>

definition counted_join :: "(jsval \<Rightarrow> bool) \<Rightarrow> jsval \<Rightarrow> string \<Rightarrow> js_error + elem" where
  "counted_join pos r k =
     (case get_prop r k of
        Inl e \<Rightarrow> Inl e
      | Inr v \<Rightarrow>
          if \<not> truthy v then Inr (Bare v)
          else if \<not> js_gt0 pos (js_prop v ''length'') then Inr (Bare (JBool False))
          else (case v of JArr xs \<Rightarrow> Inr (Item k (JStr (array_join '', '' xs))) | _ \<Rightarrow> Inl TypeError))"

definition counted_map :: "(jsval \<Rightarrow> bool) \<Rightarrow> jsval \<Rightarrow> string \<Rightarrow> js_error + elem" where
  "counted_map pos r k =
     (case get_prop r k of
        Inl e \<Rightarrow> Inl e
      | Inr v \<Rightarrow>
          if \<not> truthy v then Inr (Bare v)
          else if \<not> js_gt0 pos (js_prop v ''length'') then Inr (Bare (JBool False))
          else (case v of JArr xs \<Rightarrow> Inr (Bullets k xs) | _ \<Rightarrow> Inl TypeError))"

text \<open>
  The section ``Medical Research Results'': absent (\<open>None\<close>) unless
  \<open>Object.keys(webResearchResults).length > 0\<close>, and then its six guarded blocks.
\<close>

definition research_items :: "(jsval \<Rightarrow> bool) \<Rightarrow> jsval \<Rightarrow> js_error + elem list option" where
  "research_items pos r =
     (case own_key_count r of
        Inl e \<Rightarrow> Inl e
      | Inr n \<Rightarrow>
          if \<not> n > 0 then Inr None
          else
            (case counted_join pos r ''possible_conditions'' of Inl e \<Rightarrow> Inl e | Inr i1 \<Rightarrow>
             case counted_map pos r ''symptom_explanations'' of Inl e \<Rightarrow> Inl e | Inr i2 \<Rightarrow>
             case counted_map pos r ''red_flags'' of Inl e \<Rightarrow> Inl e | Inr i3 \<Rightarrow>
             case plain_item r ''search_summary'' of Inl e \<Rightarrow> Inl e | Inr i4 \<Rightarrow>
             case plain_item r ''confidence_level'' of Inl e \<Rightarrow> Inl e | Inr i5 \<Rightarrow>
             case counted_map pos r ''additional_questions'' of Inl e \<Rightarrow> Inl e | Inr i6 \<Rightarrow>
               Inr (Some [i1, i2, i3, i4, i5, i6])))"

subsection \<open>The rendered screen\<close>

text \<open>
  What React shows of an element: a result item with the text after its label, a bullet
  list, or text outside any item (the \<open>0\<close> that a guard on the number 0 leaves behind).
\<close>

datatype shown = ResultItem string string | ResultList string "string list" | StrayText string

fun children :: "elem \<Rightarrow> jsval list" where
  "children (Item k c) = [c]"
| "children (Bullets k cs) = cs"
| "children (Bare v) = [v]"

fun show_elem :: "elem \<Rightarrow> shown list" where
  "show_elem (Item k c) = [ResultItem k (child_text c)]"
| "show_elem (Bullets k cs) = [ResultList k (map child_text cs)]"
| "show_elem (Bare v) = (if child_text v = [] then [] else [StrayText (child_text v)])"

definition renders :: "elem list \<Rightarrow> bool" where
  "renders es = list_all valid_child (concat (map children es))"

definition show_all :: "elem list \<Rightarrow> shown list" where
  "show_all es = concat (map show_elem es)"

text \<open>
  The screens: the shown symptom information and research section of the first, the shown
  extracted information of the second with the \<open>disabled\<close> attribute of its button, the
  symptom form with its text, its counter and the attribute of its button, and the
  follow-up form with the label and the value of each textarea.
\<close>

datatype view =
    CompleteView "shown list" "shown list option"
  | ExtractedView "shown list" bool
  | InitialFormView string nat bool
  | FollowUpFormView "(string \<times> string) list" bool

text \<open>
  The form of the third screen: \<open>followUpQuestions.length === 0\<close> selects the symptom
  form, otherwise \<open>followUpQuestions.map\<close> builds one textarea per question, labelled
  \<open>{question}\<close>, whose value is \<open>questionAnswers[index] || ''\<close>.
\<close>

definition collecting_form :: "app_state \<Rightarrow> js_error + view" where
  "collecting_form s =
     (case get_prop (followUpQuestions s) ''length'' of
        Inl e \<Rightarrow> Inl e
      | Inr n \<Rightarrow>
          if n = JNum 0 then Inr (InitialFormView (symptoms s) (charCount s) (isLoading s))
          else (case followUpQuestions s of
                  JArr qs \<Rightarrow>
                    if list_all valid_child qs
                    then Inr (FollowUpFormView
                                (map (\<lambda>(index, question).
                                        (child_text question,
                                         case questionAnswers s index of None \<Rightarrow> [] | Some a \<Rightarrow> a))
                                     (enumerate 0 qs))
                                (isLoading s))
                    else Inl InvalidChild
                | _ \<Rightarrow> Inl TypeError))"

text \<open>
  The component: every \<open>TypeError\<close> of the JSX of a screen comes before React looks at
  any child.
\<close>

definition App :: "(jsval \<Rightarrow> bool) \<Rightarrow> app_state \<Rightarrow> js_error + view" where
  "App pos s =
     (if conversationComplete s then
        (case extracted_items (extractedData s) of
           Inl e \<Rightarrow> Inl e
         | Inr items \<Rightarrow>
             (case research_items pos (webResearchResults s) of
                Inl e \<Rightarrow> Inl e
              | Inr None \<Rightarrow>
                  if renders items then Inr (CompleteView (show_all items) None)
                  else Inl InvalidChild
              | Inr (Some found) \<Rightarrow>
                  if renders (items @ found)
                  then Inr (CompleteView (show_all items) (Some (show_all found)))
                  else Inl InvalidChild))
      else if showExtractedData s then
        (case extracted_items (extractedData s) of
           Inl e \<Rightarrow> Inl e
         | Inr items \<Rightarrow>
             if renders items then Inr (ExtractedView (show_all items) (isLoading s))
             else Inl InvalidChild)
      else collecting_form s)"

fun answer_inputs :: "view \<Rightarrow> (string \<times> string) list" where
  "answer_inputs (FollowUpFormView inputs disabled) = inputs"
| "answer_inputs v = []"


section \<open>Sessions\<close>

text \<open>
  What the user can do, with the outcome of the network call for the three actions that
  make one.
\<close>

datatype event =
    InputChange string
  | AnswerChange nat string
  | Submit reply
  | FollowUpSubmit reply
  | WebResearchClick reply
  | Reset

fun handle :: "app_state \<Rightarrow> event \<Rightarrow> outcome" where
  "handle s (InputChange v) =
     \<lparr> new_state = handleInputChange s v, requests = [], alerts = [], uncaught = None \<rparr>"
| "handle s (AnswerChange i v) =
     \<lparr> new_state = handleQuestionAnswerChange s i v, requests = [], alerts = [], uncaught = None \<rparr>"
| "handle s (Submit r) = handleSubmit s r"
| "handle s (FollowUpSubmit r) = handleFollowUpSubmit s r"
| "handle s (WebResearchClick r) = handleWebResearch s r"
| "handle s Reset =
     \<lparr> new_state = resetConversation s, requests = [], alerts = [], uncaught = None \<rparr>"

text \<open>
  The handlers are reachable only through the elements that \<open>App\<close> returns: each screen
  wires its own handler, and a disabled button does not fire. \<open>returned_screen\<close> is the
  \<open>return\<close> statement taken and the form it holds, with the number of its textareas;
  it does not look at the contents of the screen. So \<open>offered\<close> has every control of a
  screen that renders, and the sessions of \<open>run_ui\<close> include every session of the real
  interface.
\<close>

datatype screen = CompleteScreen | ExtractedScreen | SymptomForm | FollowUpForm nat

definition returned_screen :: "app_state \<Rightarrow> js_error + screen" where
  "returned_screen s =
     (if conversationComplete s then Inr CompleteScreen
      else if showExtractedData s then Inr ExtractedScreen
      else (case get_prop (followUpQuestions s) ''length'' of
              Inl e \<Rightarrow> Inl e
            | Inr n \<Rightarrow>
                if n = JNum 0 then Inr SymptomForm
                else (case followUpQuestions s of
                        JArr qs \<Rightarrow> Inr (FollowUpForm (length qs))
                      | _ \<Rightarrow> Inl TypeError)))"

fun wired :: "screen \<Rightarrow> bool \<Rightarrow> event \<Rightarrow> bool" where
  "wired CompleteScreen disabled Reset = True"
| "wired ExtractedScreen disabled (WebResearchClick r) = (\<not> disabled)"
| "wired SymptomForm disabled (InputChange v) = True"
| "wired SymptomForm disabled (Submit r) = (\<not> disabled)"
| "wired (FollowUpForm n) disabled (AnswerChange i v) = (i < n)"
| "wired (FollowUpForm n) disabled (FollowUpSubmit r) = (\<not> disabled)"
| "wired sc disabled e = False"

definition offered :: "app_state \<Rightarrow> event \<Rightarrow> bool" where
  "offered s e =
     (case returned_screen s of Inl err \<Rightarrow> False | Inr sc \<Rightarrow> wired sc (isLoading s) e)"

fun screen_of :: "view \<Rightarrow> screen" where
  "screen_of (CompleteView items found) = CompleteScreen"
| "screen_of (ExtractedView items disabled) = ExtractedScreen"
| "screen_of (InitialFormView text n disabled) = SymptomForm"
| "screen_of (FollowUpFormView inputs disabled) = FollowUpForm (length inputs)"

text \<open>
  \<open>run\<close> applies the handlers of a list of events whatever the screen shows, and collects
  the requests; \<open>run_ui\<close> is a session through the user interface: it is \<open>None\<close> when an
  event is not offered by the screen on which it would have to happen.
\<close>

fun run :: "app_state \<Rightarrow> event list \<Rightarrow> app_state \<times> request list" where
  "run s [] = (s, [])"
| "run s (e # es) =
     (let out = handle s e
      in case run (new_state out) es of (s', rs) \<Rightarrow> (s', requests out @ rs))"

fun run_ui :: "app_state \<Rightarrow> event list \<Rightarrow> app_state option" where
  "run_ui s [] = Some s"
| "run_ui s (e # es) = (if offered s e then run_ui (new_state (handle s e)) es else None)"

section \<open>The specification's words\<close>

text \<open>
  The text of a follow-up round as the specification describes it: one block
  \<open>Q: <question>\<newline>A: <answer>\<close> per pair, in order, consecutive blocks separated by a
  blank line. It is compared below with what \<open>handleFollowUpSubmit\<close> builds.
\<close>

fun spec_qa_text :: "(string \<times> string) list \<Rightarrow> string" where
  "spec_qa_text [] = []"
| "spec_qa_text [(q, a)] = ''Q: '' @ q @ [CHR 0x0A] @ ''A: '' @ a"
| "spec_qa_text ((q, a) # p # ps) =
     ''Q: '' @ q @ [CHR 0x0A] @ ''A: '' @ a @ [CHR 0x0A, CHR 0x0A] @ spec_qa_text (p # ps)"


section \<open>Example sessions\<close>

text \<open>Concrete replies of the backend and sessions, used to instantiate the theorems.\<close>

definition headache_text :: string where
  "headache_text = ''I have a headache and mild fever since yesterday''"

definition headache_data :: jsval where
  "headache_data =
     JObj [(''parsed_symptoms'', JArr [JStr ''headache'', JStr ''mild fever'']),
           (''time_since_start'', JStr ''yesterday'')]"

definition reply_questions :: jsval where
  "reply_questions =
     JObj [(''is_complete'', JBool False),
           (''follow_up_questions'', JArr [JStr ''How severe is the fever?''])]"

definition reply_extracted :: jsval where
  "reply_extracted =
     JObj [(''is_complete'', JBool False), (''status'', JStr ''extracted''),
           (''extracted_data'', headache_data)]"


definition research_data :: jsval where
  "research_data = JObj [(''confidence_level'', JStr ''medium'')]"

definition reply_research :: jsval where
  "reply_research =
     JObj [(''extracted_data'', headache_data), (''web_research_results'', research_data)]"

definition reply_two_questions :: jsval where
  "reply_two_questions =
     JObj [(''is_complete'', JBool False),
           (''follow_up_questions'', JArr [JStr ''Since when?'', JStr ''How severe?''])]"

definition answering :: "event list" where
  "answering =
     [InputChange headache_text, Submit (Resolved reply_two_questions),
      AnswerChange 0 ''two days'', AnswerChange 1 ''mild'']"

definition round_one :: app_state where
  "round_one = (initial_state 0)\<lparr> followUpQuestions := JArr [JStr ''Since when?'', JStr ''How severe?''],
       questionAnswers := [0 \<mapsto> ''two days''] \<rparr>"

definition st_typed :: app_state where
  "st_typed =
     \<lparr> symptoms = headache_text, charCount = length headache_text, isLoading = False,
       conversationComplete = False, followUpQuestions = JArr [], threadId = ''thread_0'',
       questionAnswers = Map.empty, extractedData = JObj [], showExtractedData = False,
       webResearchResults = JObj [] \<rparr>"

definition st_answered :: app_state where
  "st_answered =
     \<lparr> symptoms = [], charCount = 0, isLoading = False, conversationComplete = False,
       followUpQuestions = JArr [JStr ''Since when?'', JStr ''How severe?''],
       threadId = ''thread_0'', questionAnswers = [0 \<mapsto> ''two days'', 1 \<mapsto> ''mild''],
       extractedData = JObj [], showExtractedData = False, webResearchResults = JObj [] \<rparr>"

definition st_extracted :: app_state where
  "st_extracted =
     \<lparr> symptoms = [], charCount = 0, isLoading = False, conversationComplete = False,
       followUpQuestions = JArr [], threadId = ''thread_0'',
       questionAnswers = [0 \<mapsto> ''two days'', 1 \<mapsto> ''mild''],
       extractedData = headache_data, showExtractedData = True, webResearchResults = JObj [] \<rparr>"

definition st_complete :: app_state where
  "st_complete =
     \<lparr> symptoms = [], charCount = 0, isLoading = False, conversationComplete = True,
       followUpQuestions = JArr [], threadId = ''thread_0'',
       questionAnswers = [0 \<mapsto> ''two days'', 1 \<mapsto> ''mild''],
       extractedData = headache_data, showExtractedData = False,
       webResearchResults = research_data \<rparr>"

definition researching :: "event list" where
  "researching =
     [FollowUpSubmit (Resolved reply_extracted), WebResearchClick (Resolved reply_research)]"





definition reply_no_questions :: jsval where
  "reply_no_questions = JObj [(''is_complete'', JBool False)]"

definition reply_object_question :: jsval where
  "reply_object_question =
     JObj [(''is_complete'', JBool False),
           (''follow_up_questions'', JArr [JObj [(''text'', JStr ''How severe is the fever?'')]])]"

text \<open>
  An instance of the parameter of the render for the examples: none of them holds a string
  or an array under a property \<open>length\<close>, so the parameter is never consulted.
\<close>

definition example_pos :: "jsval \<Rightarrow> bool" where
  "example_pos v = False"

section \<open>Conditions used in the statements\<close>



text \<open>
  What holds of the state between two handler invocations of a session through the user
  interface: no request is in flight, the thread identifier is the one of the session, the
  two stage flags exclude each other, no question is pending outside the collecting
  stage, the symptom text is empty while the follow-up form is shown, and there are no
  research results before the conversation is complete.
\<close>

definition ui_inv :: "string \<Rightarrow> app_state \<Rightarrow> bool" where
  "ui_inv tid s =
     (\<not> isLoading s \<and> threadId s = tid \<and>
      \<not> (conversationComplete s \<and> showExtractedData s) \<and>
      (conversationComplete s \<or> showExtractedData s \<longrightarrow> followUpQuestions s = JArr []) \<and>
      (get_prop (followUpQuestions s) ''length'' \<noteq> Inr (JNum 0) \<longrightarrow>
         symptoms s = [] \<and> charCount s = 0) \<and>
      (\<not> conversationComplete s \<longrightarrow> webResearchResults s = JObj []))"

section \<open>Auxiliary facts\<close>

lemmas handler_defs =
  handleInputChange_def handleQuestionAnswerChange_def handleSubmit_def handleSubmit_try_def
  handleFollowUpSubmit_def handleFollowUpSubmit_try_def handleWebResearch_def
  handleWebResearch_try_def resetConversation_def get_prop_def unanswered_def
  combinedAnswers_def qa_block_def analyzeSymptoms_def webResearch_def

lemmas view_defs =
  App_def collecting_form_def extracted_items_def joined_item_def plain_item_def
  research_items_def renders_def show_all_def array_join_def stage_of_def

lemmas offered_defs = offered_def returned_screen_def get_prop_def

lemma trim_empty_iff: "trim s = [] \<longleftrightarrow> (\<forall>c\<in>set s. is_ws c)"
proof
  assume "trim s = []"
  then have all: "\<forall>c\<in>set (dropWhile is_ws s). is_ws c"
    by (simp add: trim_def dropWhile_eq_Nil_conv)
  have "dropWhile is_ws s = []"
  proof (rule ccontr)
    assume ne: "dropWhile is_ws s \<noteq> []"
    then have "\<not> is_ws (hd (dropWhile is_ws s))"
      by (rule hd_dropWhile)
    moreover from ne have "hd (dropWhile is_ws s) \<in> set (dropWhile is_ws s)"
      by simp
    ultimately show False
      using all by blast
  qed
  then show "\<forall>c\<in>set s. is_ws c"
    by (simp add: dropWhile_eq_Nil_conv)
next
  assume "\<forall>c\<in>set s. is_ws c"
  then show "trim s = []"
    by (auto simp: trim_def dest: set_dropWhileD)
qed

lemma unanswered_iff:
  "unanswered qa i \<longleftrightarrow> (qa i = None \<or> (\<exists>a. qa i = Some a \<and> (\<forall>c\<in>set a. is_ws c)))"
  by (auto simp: unanswered_def trim_empty_iff split: option.splits)

lemma filter_enumerate_nonempty:
  "i < length qs \<Longrightarrow> P (n + i) \<Longrightarrow> filter (\<lambda>(index, _). P index) (enumerate n qs) \<noteq> []"
  by (auto simp: filter_empty_conv in_set_enumerate_eq intro!: bexI [where x = "(n + i, qs ! i)"])

lemma foldl_join_prefix: "foldl (\<lambda>acc y. acc @ sep @ y) (p @ x) ys = p @ foldl (\<lambda>acc y. acc @ sep @ y) x ys"
  by (induction ys arbitrary: x) simp_all

lemma js_join_Cons2: "js_join sep (x # y # ys) = x @ sep @ js_join sep (y # ys)"
  using foldl_join_prefix [of sep "x @ sep" y ys] by simp

lemma handle_threadId: "threadId (new_state (handle s e)) = threadId s"
  by (cases e)
     (auto simp: handleInputChange_def handleQuestionAnswerChange_def handleSubmit_def
        handleSubmit_try_def handleFollowUpSubmit_def handleFollowUpSubmit_try_def
        handleWebResearch_def handleWebResearch_try_def resetConversation_def get_prop_def Let_def
        split: reply.splits jsval.splits)

lemma handle_requests:
  "r \<in> set (requests (handle s e)) \<Longrightarrow>
     thread_of r = Some (threadId s) \<and> (path_of r = ''/api/analyze'' \<or> path_of r = ''/api/web-research'')"
  by (cases e)
     (auto simp: handleSubmit_def
        handleSubmit_try_def handleFollowUpSubmit_def handleFollowUpSubmit_try_def
        handleWebResearch_def handleWebResearch_try_def get_prop_def Let_def
        analyzeSymptoms_def webResearch_def
        split: reply.splits jsval.splits if_splits)

lemma fst_run_Cons: "fst (run s (e # es)) = fst (run (new_state (handle s e)) es)"
  by (simp add: Let_def split: prod.splits)

lemma snd_run_Cons:
  "snd (run s (e # es)) = requests (handle s e) @ snd (run (new_state (handle s e)) es)"
  by (simp add: Let_def split: prod.splits)

lemma run_threadId: "threadId (fst (run s evs)) = threadId s"
  by (induction evs arbitrary: s) (simp_all add: fst_run_Cons handle_threadId del: run.simps(2))

lemma run_requests:
  "r \<in> set (snd (run s evs)) \<Longrightarrow>
     thread_of r = Some (threadId s) \<and> (path_of r = ''/api/analyze'' \<or> path_of r = ''/api/web-research'')"
proof (induction evs arbitrary: s)
  case Nil
  then show ?case by simp
next
  case (Cons e es)
  from Cons.prems have "r \<in> set (requests (handle s e)) \<or> r \<in> set (snd (run (new_state (handle s e)) es))"
    by (simp add: snd_run_Cons del: run.simps(2))
  then show ?case
  proof
    assume "r \<in> set (requests (handle s e))"
    then show ?thesis by (rule handle_requests)
  next
    assume "r \<in> set (snd (run (new_state (handle s e)) es))"
    then show ?thesis
      using Cons.IH [of "new_state (handle s e)"] by (simp add: handle_threadId)
  qed
qed

lemma combinedAnswers_spec:
  "length as = length qs \<Longrightarrow> \<forall>i<length qs. qa (n + i) = Some (as ! i) \<Longrightarrow>
     js_join [CHR 0x0A, CHR 0x0A] (map (qa_block qa) (enumerate n qs)) =
       spec_qa_text (zip (map js_to_string qs) as)"
proof (induction qs arbitrary: as n)
  case Nil
  then show ?case by simp
next
  case (Cons q qs)
  then obtain a as' where as: "as = a # as'"
    by (cases as) auto
  from Cons.prems as have len: "length as' = length qs"
    by simp
  from Cons.prems(2) as have hd: "qa n = Some a"
    by force
  from Cons.prems(2) as have tl: "\<forall>i<length qs. qa (Suc n + i) = Some (as' ! i)"
    by force
  note IH = Cons.IH [OF len tl]
  show ?case
  proof (cases qs)
    case Nil
    with as len hd show ?thesis
      by (simp add: qa_block_def)
  next
    case (Cons q' qs')
    then obtain a' as'' where as': "as' = a' # as''"
      using len by (cases as') auto
    have "js_join [CHR 0x0A, CHR 0x0A] (map (qa_block qa) (enumerate n (q # qs))) =
        qa_block qa (n, q) @ [CHR 0x0A, CHR 0x0A] @
          js_join [CHR 0x0A, CHR 0x0A] (map (qa_block qa) (enumerate (Suc n) qs))"
      using Cons by (simp add: js_join_Cons2 del: js_join.simps)
    also have "\<dots> = qa_block qa (n, q) @ [CHR 0x0A, CHR 0x0A] @ spec_qa_text (zip (map js_to_string qs) as')"
      by (simp only: IH)
    also have "\<dots> = spec_qa_text (zip (map js_to_string (q # qs)) as)"
      using Cons as as' hd by (simp add: qa_block_def)
    finally show ?thesis .
  qed
qed

lemma all_answered_filter:
  "\<forall>i<length qs. \<not> unanswered qa (n + i) \<Longrightarrow>
     filter (\<lambda>(index, _). unanswered qa index) (enumerate n qs) = []"
proof (induction qs arbitrary: n)
  case Nil
  then show ?case by simp
next
  case (Cons q qs)
  from Cons.prems have "\<not> unanswered qa n"
    by force
  moreover from Cons.prems have "\<forall>i<length qs. \<not> unanswered qa (Suc n + i)"
    by force
  ultimately show ?case
    using Cons.IH [of "Suc n"] by simp
qed

lemma trim_headache: "trim headache_text \<noteq> []"
  by (simp add: trim_empty_iff headache_text_def is_ws_def)

lemma answering_state:
  "fst (run (initial_state 0) answering) =
     (initial_state 0)\<lparr> followUpQuestions := JArr [JStr ''Since when?'', JStr ''How severe?''],
        questionAnswers := [0 \<mapsto> ''two days'', 1 \<mapsto> ''mild''] \<rparr>"
  using trim_headache
  by (simp add: answering_def initial_state_def handler_defs reply_two_questions_def Let_def)

lemma initial_state_0:
  "initial_state 0 =
     \<lparr> symptoms = [], charCount = 0, isLoading = False, conversationComplete = False,
       followUpQuestions = JArr [], threadId = ''thread_0'', questionAnswers = Map.empty,
       extractedData = JObj [], showExtractedData = False, webResearchResults = JObj [] \<rparr>"
  by (simp add: initial_state_def digit_char_def)

lemma run_ui_append:
  "run_ui s (xs @ ys) = (case run_ui s xs of None \<Rightarrow> None | Some s' \<Rightarrow> run_ui s' ys)"
  by (induction xs arbitrary: s) simp_all

lemma run_append:
  "run s (xs @ ys) =
     (case run s xs of (s', rs) \<Rightarrow> case run s' ys of (s'', rs') \<Rightarrow> (s'', rs @ rs'))"
  by (induction xs arbitrary: s) (simp_all add: Let_def split: prod.splits)

lemma answered_unanswered: "\<not> unanswered (questionAnswers st_answered) 0" "\<not> unanswered (questionAnswers st_answered) (Suc 0)"
  by (simp_all add: unanswered_def st_answered_def trim_empty_iff is_ws_def)

lemma run_answering:
  "run (initial_state 0) answering =
     (st_answered, [Post ''/api/analyze'' [(''symptoms'', headache_text), (''thread_id'', ''thread_0'')]])"
  using trim_headache
  by (simp add: answering_def initial_state_0 st_answered_def handler_defs reply_two_questions_def Let_def)

lemma run_researching:
  "run st_answered researching =
     (st_complete,
      [Post ''/api/analyze''
        [(''symptoms'', ''Q: Since when?'' @ [CHR 0x0A] @ ''A: two days'' @ [CHR 0x0A, CHR 0x0A] @
                        ''Q: How severe?'' @ [CHR 0x0A] @ ''A: mild''),
         (''thread_id'', ''thread_0'')],
       Post ''/api/web-research'' [(''thread_id'', ''thread_0'')]])"
  by (simp add: researching_def st_answered_def st_complete_def handler_defs reply_extracted_def
       reply_research_def research_data_def Let_def trim_empty_iff is_ws_def)

lemma run_ui_answering: "run_ui (initial_state 0) answering = Some st_answered"
  using trim_headache
  by (simp add: answering_def initial_state_0 st_answered_def handler_defs offered_defs
       reply_two_questions_def Let_def)

lemma run_ui_researching: "run_ui st_answered researching = Some st_complete"
  by (simp add: researching_def st_answered_def st_complete_def handler_defs offered_defs
       reply_extracted_def reply_research_def research_data_def Let_def
       trim_empty_iff is_ws_def)

lemma offered_initial_form:
  assumes "offered s (InputChange v) \<or> offered s (Submit r)"
  shows "\<not> conversationComplete s \<and> \<not> showExtractedData s \<and>
         get_prop (followUpQuestions s) ''length'' = Inr (JNum 0)"
  using assms
  by (auto simp: offered_def returned_screen_def split: if_splits sum.splits jsval.splits)

lemma offered_follow_up_form:
  assumes "offered s (AnswerChange i v) \<or> offered s (FollowUpSubmit r)"
  shows "\<not> conversationComplete s \<and> \<not> showExtractedData s \<and>
         (\<exists>qs. followUpQuestions s = JArr qs \<and> qs \<noteq> [])"
  using assms
  by (auto simp: offered_def returned_screen_def get_prop_def
        split: if_splits sum.splits jsval.splits)

lemma offered_research:
  assumes "offered s (WebResearchClick r)"
  shows "\<not> conversationComplete s \<and> showExtractedData s \<and> \<not> isLoading s"
  using assms
  by (auto simp: offered_def returned_screen_def split: if_splits sum.splits jsval.splits)

text \<open>A screen that renders is the screen whose controls are offered.\<close>

lemma App_returned_screen:
  assumes "App pos s = Inr v"
  shows "returned_screen s = Inr (screen_of v)"
  using assms
  by (auto simp: App_def collecting_form_def returned_screen_def
        split: if_splits sum.splits option.splits jsval.splits)

lemma get_prop_length_Nil: "get_prop (JArr []) ''length'' = Inr (JNum 0)"
  by (simp add: get_prop_def)

lemma handleSubmit_inv:
  assumes "ui_inv tid s" and "\<not> conversationComplete s"
  shows "ui_inv tid (new_state (handleSubmit s r))"
  using assms
  by (cases r)
     (auto simp: ui_inv_def handleSubmit_def handleSubmit_try_def Let_def get_prop_length_Nil
        split: sum.splits)

lemma handleFollowUpSubmit_inv:
  assumes "ui_inv tid s" and "\<not> conversationComplete s"
    and "get_prop (followUpQuestions s) ''length'' \<noteq> Inr (JNum 0)"
  shows "ui_inv tid (new_state (handleFollowUpSubmit s r))"
proof -
  from assms have clear: "symptoms s = [] \<and> charCount s = 0"
    by (simp add: ui_inv_def)
  show ?thesis
  proof (cases "followUpQuestions s")
    case (JArr qs)
    with assms clear show ?thesis
      by (cases r)
         (auto simp: ui_inv_def handleFollowUpSubmit_def handleFollowUpSubmit_try_def Let_def
            get_prop_length_Nil split: sum.splits)
  qed (use assms in \<open>simp_all add: handleFollowUpSubmit_def\<close>)
qed

lemma handleWebResearch_inv:
  assumes "ui_inv tid s" and "showExtractedData s"
  shows "ui_inv tid (new_state (handleWebResearch s r))"
  using assms
  by (cases r)
     (auto simp: ui_inv_def handleWebResearch_def handleWebResearch_try_def Let_def
        get_prop_length_Nil split: sum.splits)

lemma handle_inv:
  assumes "ui_inv tid s" and "offered s e"
  shows "ui_inv tid (new_state (handle s e))"
proof (cases e)
  case (InputChange v)
  with assms offered_initial_form [of s v] show ?thesis
    by (simp add: ui_inv_def handleInputChange_def)
next
  case (AnswerChange i v)
  with assms show ?thesis
    by (simp add: ui_inv_def handleQuestionAnswerChange_def)
next
  case (Submit r)
  with assms offered_initial_form [of s _ r] show ?thesis
    by (simp add: handleSubmit_inv)
next
  case (FollowUpSubmit r)
  with assms(2) offered_follow_up_form [of s _ _ r]
  have "\<not> conversationComplete s \<and> get_prop (followUpQuestions s) ''length'' \<noteq> Inr (JNum 0)"
    by (auto simp: get_prop_def)
  with FollowUpSubmit assms(1) show ?thesis
    by (simp add: handleFollowUpSubmit_inv)
next
  case (WebResearchClick r)
  with assms offered_research [of s r] show ?thesis
    by (simp add: handleWebResearch_inv)
next
  case Reset
  with assms show ?thesis
    by (simp add: ui_inv_def resetConversation_def get_prop_length_Nil)
qed

lemma initial_inv: "ui_inv (threadId (initial_state now)) (initial_state now)"
  by (simp add: ui_inv_def initial_state_def get_prop_length_Nil)

lemma run_ui_inv:
  "ui_inv tid s \<Longrightarrow> run_ui s evs = Some s' \<Longrightarrow> ui_inv tid s'"
proof (induction evs arbitrary: s)
  case Nil
  then show ?case by simp
next
  case (Cons e es)
  from Cons.prems(2) have off: "offered s e" and rest: "run_ui (new_state (handle s e)) es = Some s'"
    by (simp_all split: if_splits)
  from Cons.prems(1) off have "ui_inv tid (new_state (handle s e))"
    by (rule handle_inv)
  then show ?case
    using rest by (rule Cons.IH)
qed

lemma extracted_items_undefined: "extracted_items JUndefined = Inl TypeError"
  by (simp add: extracted_items_def joined_item_def get_prop_def)









lemma run_ui_to_complete: "run_ui (initial_state 0) (answering @ researching) = Some st_complete"
  by (simp add: run_ui_append run_ui_answering run_ui_researching)

lemma handleSubmit_new_state:
  assumes "requests (handleSubmit s (Resolved d)) \<noteq> []" and "\<not> nullish d"
  shows "new_state (handleSubmit s (Resolved d)) =
     (if truthy (js_prop d ''is_complete'') then
        s\<lparr> conversationComplete := True, followUpQuestions := JArr [],
           extractedData := js_prop d ''extracted_data'', showExtractedData := False,
           isLoading := False \<rparr>
      else if js_prop d ''status'' = JStr ''extracted'' then
        s\<lparr> showExtractedData := True, extractedData := js_prop d ''extracted_data'',
           followUpQuestions := JArr [], isLoading := False \<rparr>
      else
        s\<lparr> followUpQuestions := js_prop d ''follow_up_questions'', symptoms := [],
           charCount := 0, questionAnswers := Map.empty, showExtractedData := False,
           isLoading := False \<rparr>)"
proof -
  from assms(1) have "trim (symptoms s) \<noteq> []"
    by (auto simp: handleSubmit_def)
  with assms(2) show ?thesis
    by (simp add: handleSubmit_def handleSubmit_try_def get_prop_def Let_def)
qed

lemma handleFollowUpSubmit_new_state:
  assumes "requests (handleFollowUpSubmit s (Resolved d)) \<noteq> []" and "\<not> nullish d"
  shows "new_state (handleFollowUpSubmit s (Resolved d)) =
     (if truthy (js_prop d ''is_complete'') then
        s\<lparr> conversationComplete := True, followUpQuestions := JArr [],
           extractedData := js_prop d ''extracted_data'', showExtractedData := False,
           isLoading := False \<rparr>
      else if js_prop d ''status'' = JStr ''extracted'' then
        s\<lparr> showExtractedData := True, extractedData := js_prop d ''extracted_data'',
           followUpQuestions := JArr [], isLoading := False \<rparr>
      else
        s\<lparr> followUpQuestions := js_prop d ''follow_up_questions'',
           questionAnswers := Map.empty, showExtractedData := False, isLoading := False \<rparr>)"
proof (cases "followUpQuestions s")
  case (JArr qs)
  with assms(1)
  have "filter (\<lambda>(index, _). unanswered (questionAnswers s) index) (enumerate 0 qs) = []"
    by (auto simp: handleFollowUpSubmit_def Let_def split: if_splits)
  with JArr assms(2) show ?thesis
    by (simp add: handleFollowUpSubmit_def handleFollowUpSubmit_try_def get_prop_def Let_def)
qed (use assms in \<open>simp_all add: handleFollowUpSubmit_def\<close>)

lemma map_enumerate_const:
  "map (\<lambda>(index, question). (f question, c)) (enumerate n qs) = map (\<lambda>q. (f q, c)) qs"
  by (induction qs arbitrary: n) simp_all

lemma fresh_round_form:
  assumes "\<not> conversationComplete s" and "\<not> showExtractedData s"
    and "followUpQuestions s = JArr qs" and "list_all valid_child qs"
    and "questionAnswers s = Map.empty"
  shows "\<exists>v. App pos s = Inr v \<and> answer_inputs v = map (\<lambda>q. (child_text q, [])) qs"
  using assms
  by (cases qs) (simp_all add: App_def collecting_form_def get_prop_def map_enumerate_const)

lemma run_ui_typed: "run_ui (initial_state 0) [InputChange headache_text] = Some st_typed"
  by (simp add: initial_state_0 st_typed_def handler_defs offered_defs)

lemma offered_typed: "offered st_typed (Submit r)"
  by (simp add: st_typed_def offered_defs)

lemma offered_answered: "offered st_answered (FollowUpSubmit r)"
  by (simp add: st_answered_def offered_defs)

lemma requests_typed: "requests (handle st_typed (Submit (Resolved d))) \<noteq> []"
  using trim_headache
  by (cases "handleSubmit_try (st_typed\<lparr>isLoading := True\<rparr>) d")
     (simp add: handleSubmit_def st_typed_def Let_def split: option.splits)

lemma requests_answered: "requests (handle st_answered (FollowUpSubmit (Resolved d))) \<noteq> []"
  using answered_unanswered
  by (cases "handleFollowUpSubmit_try (st_answered\<lparr>isLoading := True\<rparr>) d")
     (simp add: handleFollowUpSubmit_def Let_def st_answered_def split: option.splits)



lemma run_to_complete:
  "run (initial_state 0) (answering @ researching) =
     (st_complete,
      [Post ''/api/analyze'' [(''symptoms'', headache_text), (''thread_id'', ''thread_0'')],
       Post ''/api/analyze''
        [(''symptoms'', ''Q: Since when?'' @ [CHR 0x0A] @ ''A: two days'' @ [CHR 0x0A, CHR 0x0A] @
                        ''Q: How severe?'' @ [CHR 0x0A] @ ''A: mild''),
         (''thread_id'', ''thread_0'')],
       Post ''/api/web-research'' [(''thread_id'', ''thread_0'')]])"
  by (simp add: run_append run_answering run_researching)

section \<open>Replies that complete or extract\<close>




section \<open>Replies that ask more questions\<close>

text \<open>
  Claim C2, amended. In a session through the user interface, when the reply to an analyze
  request (of the symptom form or of a follow-up round) has a falsy \<open>is_complete\<close> and a
  \<open>status\<close> other than \<open>extracted\<close>, the controller stays in the Collecting stage, the
  stored follow-up questions are the reply's \<open>follow_up_questions\<close>, the symptom text is
  empty and its character count is 0, and the answers are reset. When
  \<open>follow_up_questions\<close> is an array of values that React can render as label text, the
  form renders exactly one empty answer input per returned question, in order, labelled
  with the question.
\<close>

theorem more_questions_round:
  "run_ui (initial_state now) evs = Some s \<and>
   (e = Submit (Resolved d) \<or> e = FollowUpSubmit (Resolved d)) \<and>
   offered s e \<and> requests (handle s e) \<noteq> [] \<and>
   get_prop d ''is_complete'' = Inr c \<and> \<not> truthy c \<and>
   js_prop d ''status'' \<noteq> JStr ''extracted'' \<longrightarrow>
     stage_of (new_state (handle s e)) = Collecting \<and>
     followUpQuestions (new_state (handle s e)) = js_prop d ''follow_up_questions'' \<and>
     symptoms (new_state (handle s e)) = [] \<and>
     charCount (new_state (handle s e)) = 0 \<and>
     questionAnswers (new_state (handle s e)) = Map.empty \<and>
     (\<forall>qs. js_prop d ''follow_up_questions'' = JArr qs \<and> list_all valid_child qs \<longrightarrow>
        (\<exists>v. App pos (new_state (handle s e)) = Inr v \<and>
             answer_inputs v = map (\<lambda>q. (child_text q, [])) qs))"
proof
  let ?s' = "new_state (handle s e)"
  assume a: "run_ui (initial_state now) evs = Some s \<and>
   (e = Submit (Resolved d) \<or> e = FollowUpSubmit (Resolved d)) \<and>
   offered s e \<and> requests (handle s e) \<noteq> [] \<and>
   get_prop d ''is_complete'' = Inr c \<and> \<not> truthy c \<and>
   js_prop d ''status'' \<noteq> JStr ''extracted''"
  with initial_inv have inv: "ui_inv (threadId (initial_state now)) s"
    by (blast intro: run_ui_inv)
  from a have body: "\<not> nullish d" and c: "c = js_prop d ''is_complete''"
    by (auto simp: get_prop_def split: if_splits)
  from a have "e = Submit (Resolved d) \<or> e = FollowUpSubmit (Resolved d)"
    by simp
  then have state: "?s' =
      s\<lparr> followUpQuestions := js_prop d ''follow_up_questions'', symptoms := [],
         charCount := 0, questionAnswers := Map.empty, showExtractedData := False,
         isLoading := False \<rparr> \<and> \<not> conversationComplete s"
  proof
    assume e: "e = Submit (Resolved d)"
    with a offered_initial_form [of s _ "Resolved d"] have "\<not> conversationComplete s"
      by simp
    with a e body c show ?thesis
      by (simp add: handleSubmit_new_state)
  next
    assume e: "e = FollowUpSubmit (Resolved d)"
    with a offered_follow_up_form [of s _ _ "Resolved d"]
    have f: "\<not> conversationComplete s \<and> get_prop (followUpQuestions s) ''length'' \<noteq> Inr (JNum 0)"
      by (auto simp: get_prop_def)
    with inv have "symptoms s = [] \<and> charCount s = 0"
      by (simp add: ui_inv_def)
    with a e f body c show ?thesis
      by (simp add: handleFollowUpSubmit_new_state)
  qed
  then have form: "\<forall>qs. js_prop d ''follow_up_questions'' = JArr qs \<and> list_all valid_child qs \<longrightarrow>
        (\<exists>v. App pos ?s' = Inr v \<and> answer_inputs v = map (\<lambda>q. (child_text q, [])) qs)"
    by (intro allI impI fresh_round_form) simp_all
  from state have "stage_of ?s' = Collecting \<and>
     followUpQuestions ?s' = js_prop d ''follow_up_questions'' \<and>
     symptoms ?s' = [] \<and> charCount ?s' = 0 \<and> questionAnswers ?s' = Map.empty"
    by (simp add: stage_of_def)
  with form show "stage_of ?s' = Collecting \<and>
     followUpQuestions ?s' = js_prop d ''follow_up_questions'' \<and>
     symptoms ?s' = [] \<and> charCount ?s' = 0 \<and> questionAnswers ?s' = Map.empty \<and>
     (\<forall>qs. js_prop d ''follow_up_questions'' = JArr qs \<and> list_all valid_child qs \<longrightarrow>
        (\<exists>v. App pos ?s' = Inr v \<and> answer_inputs v = map (\<lambda>q. (child_text q, [])) qs))"
    by blast
qed

theorem more_questions_round_witness:
  "run_ui (initial_state 0) [InputChange headache_text] = Some st_typed \<and>
   offered st_typed (Submit (Resolved reply_questions)) \<and>
   symptoms st_typed = headache_text \<and>
   symptoms (new_state (handle st_typed (Submit (Resolved reply_questions)))) = [] \<and>
   charCount (new_state (handle st_typed (Submit (Resolved reply_questions)))) = 0 \<and>
   (\<exists>v. App example_pos (new_state (handle st_typed (Submit (Resolved reply_questions)))) = Inr v \<and>
        answer_inputs v = [(''How severe is the fever?'', [])]) \<and>
   run_ui (initial_state 0) answering = Some st_answered \<and>
   offered st_answered (FollowUpSubmit (Resolved reply_questions)) \<and>
   stage_of (new_state (handle st_answered (FollowUpSubmit (Resolved reply_questions)))) = Collecting \<and>
   symptoms (new_state (handle st_answered (FollowUpSubmit (Resolved reply_questions)))) = [] \<and>
   questionAnswers (new_state (handle st_answered (FollowUpSubmit (Resolved reply_questions)))) = Map.empty \<and>
   (\<exists>v. App example_pos (new_state (handle st_answered (FollowUpSubmit (Resolved reply_questions)))) = Inr v \<and>
        answer_inputs v = [(''How severe is the fever?'', [])])"
proof -
  have d: "get_prop reply_questions ''is_complete'' = Inr (JBool False) \<and> \<not> truthy (JBool False) \<and>
      js_prop reply_questions ''status'' \<noteq> JStr ''extracted''"
    "js_prop reply_questions ''follow_up_questions'' = JArr [JStr ''How severe is the fever?'']"
    "list_all valid_child [JStr ''How severe is the fever?'']"
    by (simp_all add: reply_questions_def get_prop_def)
  have t: "symptoms st_typed = headache_text"
    by (simp add: st_typed_def)
  from more_questions_round [where now = 0 and evs = "[InputChange headache_text]" and s = st_typed
      and e = "Submit (Resolved reply_questions)" and d = reply_questions and c = "JBool False"
      and pos = example_pos]
    run_ui_typed offered_typed requests_typed d
  have one: "symptoms (new_state (handle st_typed (Submit (Resolved reply_questions)))) = [] \<and>
    charCount (new_state (handle st_typed (Submit (Resolved reply_questions)))) = 0 \<and>
    (\<exists>v. App example_pos (new_state (handle st_typed (Submit (Resolved reply_questions)))) = Inr v \<and>
        answer_inputs v = [(''How severe is the fever?'', [])])"
    by simp
  from more_questions_round [where now = 0 and evs = answering and s = st_answered
      and e = "FollowUpSubmit (Resolved reply_questions)" and d = reply_questions
      and c = "JBool False" and pos = example_pos]
    run_ui_answering offered_answered requests_answered d
  have two: "stage_of (new_state (handle st_answered (FollowUpSubmit (Resolved reply_questions)))) = Collecting \<and>
    symptoms (new_state (handle st_answered (FollowUpSubmit (Resolved reply_questions)))) = [] \<and>
    questionAnswers (new_state (handle st_answered (FollowUpSubmit (Resolved reply_questions)))) = Map.empty \<and>
    (\<exists>v. App example_pos (new_state (handle st_answered (FollowUpSubmit (Resolved reply_questions)))) = Inr v \<and>
        answer_inputs v = [(''How severe is the fever?'', [])])"
    by simp
  from one two t run_ui_typed run_ui_answering offered_typed offered_answered
  show ?thesis by blast
qed

text \<open>
  The claim as stated fails for the rendering: a reply with \<open>is_complete\<close> false and no
  \<open>follow_up_questions\<close> stores \<open>undefined\<close>, and the component throws on
  \<open>followUpQuestions.length\<close>; a question that is an object makes React throw. In both
  cases no answer input is rendered.
\<close>

theorem more_questions_round_counterexample:
  "followUpQuestions (new_state (handle st_typed (Submit (Resolved reply_no_questions)))) =
     JUndefined \<and>
   stage_of (new_state (handle st_typed (Submit (Resolved reply_no_questions)))) = Collecting \<and>
   App example_pos (new_state (handle st_typed (Submit (Resolved reply_no_questions)))) =
     Inl TypeError \<and>
   followUpQuestions (new_state (handle st_typed (Submit (Resolved reply_object_question)))) =
     JArr [JObj [(''text'', JStr ''How severe is the fever?'')]] \<and>
   App example_pos (new_state (handle st_typed (Submit (Resolved reply_object_question)))) =
     Inl InvalidChild"
  using trim_headache
  by (simp add: st_typed_def reply_no_questions_def reply_object_question_def handler_defs
        view_defs Let_def)

section \<open>Local validation\<close>

text \<open>
  Claim C3. A submission that fails local validation issues no network call, shows a
  message and changes no state: \<open>handleSubmit\<close> when the symptom text is empty or consists
  of white space only, \<open>handleFollowUpSubmit\<close> when the answer to some question of the
  round is missing or consists of white space only. The outcome is the unchanged state, no
  request, one alert and no exception.
\<close>

theorem validation_failure_blocks_submission:
  "((\<forall>c\<in>set (symptoms s). is_ws c) \<longrightarrow>
      handleSubmit s r =
        \<lparr> new_state = s, requests = [], alerts = [''Please describe your symptoms.''],
          uncaught = None \<rparr>) \<and>
   (followUpQuestions s = JArr qs \<and> i < length qs \<and>
      (questionAnswers s i = None \<or>
       (\<exists>a. questionAnswers s i = Some a \<and> (\<forall>c\<in>set a. is_ws c))) \<longrightarrow>
      handleFollowUpSubmit s r =
        \<lparr> new_state = s, requests = [],
          alerts = [''Please answer all questions before submitting.''], uncaught = None \<rparr>)"
proof (intro conjI impI)
  assume "\<forall>c\<in>set (symptoms s). is_ws c"
  then have "trim (symptoms s) = []"
    by (simp add: trim_empty_iff)
  then show "handleSubmit s r =
      \<lparr> new_state = s, requests = [], alerts = [''Please describe your symptoms.''],
        uncaught = None \<rparr>"
    by (simp add: handleSubmit_def)
next
  assume a: "followUpQuestions s = JArr qs \<and> i < length qs \<and>
      (questionAnswers s i = None \<or>
       (\<exists>a. questionAnswers s i = Some a \<and> (\<forall>c\<in>set a. is_ws c)))"
  then have "unanswered (questionAnswers s) (0 + i)"
    by (simp add: unanswered_iff)
  with a have "filter (\<lambda>(index, _). unanswered (questionAnswers s) index) (enumerate 0 qs) \<noteq> []"
    by (intro filter_enumerate_nonempty) simp_all
  with a show "handleFollowUpSubmit s r =
      \<lparr> new_state = s, requests = [],
        alerts = [''Please answer all questions before submitting.''], uncaught = None \<rparr>"
    by (simp add: handleFollowUpSubmit_def)
qed

theorem validation_failure_blocks_submission_witness:
  "handleSubmit (handleInputChange (initial_state 0) '' '') (Resolved (JObj [])) =
     \<lparr> new_state = handleInputChange (initial_state 0) '' '', requests = [],
       alerts = [''Please describe your symptoms.''], uncaught = None \<rparr> \<and>
   handleFollowUpSubmit round_one (Resolved (JObj [])) =
     \<lparr> new_state = round_one, requests = [],
       alerts = [''Please answer all questions before submitting.''], uncaught = None \<rparr>"
proof -
  have h1: "\<forall>c\<in>set (symptoms (handleInputChange (initial_state 0) '' '')). is_ws c"
    by (simp add: handleInputChange_def is_ws_def)
  have h2: "followUpQuestions round_one = JArr [JStr ''Since when?'', JStr ''How severe?''] \<and>
      (1::nat) < length [JStr ''Since when?'', JStr ''How severe?''] \<and>
      (questionAnswers round_one 1 = None \<or>
       (\<exists>a. questionAnswers round_one 1 = Some a \<and> (\<forall>c\<in>set a. is_ws c)))"
    by (simp add: round_one_def)
  from validation_failure_blocks_submission
         [where s = "handleInputChange (initial_state 0) '' ''" and r = "Resolved (JObj [])"]
       validation_failure_blocks_submission
         [where s = round_one and qs = "[JStr ''Since when?'', JStr ''How severe?'']" and i = 1
            and r = "Resolved (JObj [])"]
       h1 h2
  show ?thesis by blast
qed

section \<open>The text of a follow-up round\<close>

text \<open>
  Claim C4. When every question of a round has a non-blank answer, the single request of
  \<open>handleFollowUpSubmit\<close> is an analyze call whose \<open>symptoms\<close> field is the text the
  specification describes (the blocks \<open>Q: <question>\<newline>A: <answer>\<close> in question order,
  joined by a blank line) and whose \<open>thread_id\<close> is the identifier minted at session
  start, which every earlier request of the session carries too.
\<close>

theorem follow_up_text:
  "followUpQuestions (fst (run (initial_state now) evs)) = JArr qs \<and> length as = length qs \<and>
   (\<forall>i<length qs. questionAnswers (fst (run (initial_state now) evs)) i = Some (as ! i) \<and>
        \<not> (\<forall>c\<in>set (as ! i). is_ws c)) \<longrightarrow>
   requests (handleFollowUpSubmit (fst (run (initial_state now) evs)) r) =
     [Post ''/api/analyze''
        [(''symptoms'', spec_qa_text (zip (map js_to_string qs) as)),
         (''thread_id'', threadId (initial_state now))]] \<and>
   (\<forall>r'\<in>set (snd (run (initial_state now) evs)). thread_of r' = Some (threadId (initial_state now)))"
proof (intro impI conjI)
  let ?s = "fst (run (initial_state now) evs)"
  assume a: "followUpQuestions ?s = JArr qs \<and> length as = length qs \<and>
   (\<forall>i<length qs. questionAnswers ?s i = Some (as ! i) \<and>
        \<not> (\<forall>c\<in>set (as ! i). is_ws c))"
  then have "\<forall>i<length qs. \<not> unanswered (questionAnswers ?s) (0 + i)"
    by (simp add: unanswered_iff)
  then have none: "filter (\<lambda>(index, _). unanswered (questionAnswers ?s) index) (enumerate 0 qs) = []"
    by (rule all_answered_filter)
  from a have body: "combinedAnswers qs (questionAnswers ?s) = spec_qa_text (zip (map js_to_string qs) as)"
    unfolding combinedAnswers_def by (intro combinedAnswers_spec) simp_all
  have tid: "threadId ?s = threadId (initial_state now)"
    by (rule run_threadId)
  from a none body tid
  show "requests (handleFollowUpSubmit ?s r) =
     [Post ''/api/analyze''
        [(''symptoms'', spec_qa_text (zip (map js_to_string qs) as)),
         (''thread_id'', threadId (initial_state now))]]"
    by (cases r)
       (simp_all add: handleFollowUpSubmit_def Let_def analyzeSymptoms_def split: prod.splits option.splits)
next
  show "\<forall>r'\<in>set (snd (run (initial_state now) evs)). thread_of r' = Some (threadId (initial_state now))"
    using run_requests by blast
qed

theorem follow_up_text_witness:
  "requests (handleFollowUpSubmit (fst (run (initial_state 0) answering)) (Resolved reply_extracted)) =
     [Post ''/api/analyze''
        [(''symptoms'', ''Q: Since when?'' @ [CHR 0x0A] @ ''A: two days'' @ [CHR 0x0A, CHR 0x0A] @
                        ''Q: How severe?'' @ [CHR 0x0A] @ ''A: mild''),
         (''thread_id'', threadId (initial_state 0))]] \<and>
   map thread_of (snd (run (initial_state 0) answering)) = [Some (threadId (initial_state 0))]"
proof -
  have h: "followUpQuestions (fst (run (initial_state 0) answering)) =
        JArr [JStr ''Since when?'', JStr ''How severe?''] \<and>
      length [''two days'', ''mild''] = length [JStr ''Since when?'', JStr ''How severe?''] \<and>
      (\<forall>i<length [JStr ''Since when?'', JStr ''How severe?''].
          questionAnswers (fst (run (initial_state 0) answering)) i = Some ([''two days'', ''mild''] ! i) \<and>
          \<not> (\<forall>c\<in>set ([''two days'', ''mild''] ! i). is_ws c))"
    by (simp add: answering_state All_less_Suc is_ws_def)
  have r: "snd (run (initial_state 0) answering) =
      [Post ''/api/analyze'' [(''symptoms'', headache_text), (''thread_id'', threadId (initial_state 0))]]"
    using trim_headache
    by (simp add: answering_def initial_state_def handler_defs reply_two_questions_def Let_def)
  from follow_up_text [where now = 0 and evs = answering and r = "Resolved reply_extracted"
      and qs = "[JStr ''Since when?'', JStr ''How severe?'']" and as = "[''two days'', ''mild'']",
      THEN mp, OF h]
  show ?thesis
    by (simp add: r)
qed

section \<open>The thread identifier\<close>

text \<open>
  Claim C5. The thread identifier is fixed when the session starts and no handler changes
  it: after any sequence of handler invocations the state holds the initial identifier,
  and every request issued on the way is an analyze or a research request that carries
  it. In particular a follow-up call sends the identifier of the initial call.
\<close>

theorem thread_id_fixed:
  "threadId (initial_state now) = ''thread_'' @ show_nat now \<and>
   threadId (fst (run (initial_state now) evs)) = threadId (initial_state now) \<and>
   (\<forall>r\<in>set (snd (run (initial_state now) evs)).
      thread_of r = Some (threadId (initial_state now)) \<and>
      (path_of r = ''/api/analyze'' \<or> path_of r = ''/api/web-research''))"
  using run_requests [of _ "initial_state now" evs]
  by (simp add: run_threadId initial_state_def)

theorem thread_id_fixed_witness:
  "threadId (initial_state 0) = ''thread_0'' \<and>
   threadId (fst (run (initial_state 0) (answering @ researching))) = ''thread_0'' \<and>
   map thread_of (snd (run (initial_state 0) (answering @ researching))) =
     [Some ''thread_0'', Some ''thread_0'', Some ''thread_0''] \<and>
   map path_of (snd (run (initial_state 0) (answering @ researching))) =
     [''/api/analyze'', ''/api/analyze'', ''/api/web-research'']"
proof -
  have t: "''thread_'' @ show_nat 0 = ''thread_0''"
    by (simp add: digit_char_def)
  from thread_id_fixed [of 0 "answering @ researching"] t show ?thesis
    by (simp add: run_to_complete)
qed

section \<open>Failed requests\<close>



section \<open>Reset\<close>

text \<open>
  Claim C7. In a session through the user interface, resetting from the Complete stage
  gives the initial state of the session again: symptom text, character count, completion
  flag, follow-up questions, answers, extracted data, extracted-data flag and research
  results have their initial values and the symptom form is shown, while the thread
  identifier is the one the session started with.
\<close>

theorem reset_restores_initial_state:
  "run_ui (initial_state now) evs = Some s \<and> stage_of s = Complete \<longrightarrow>
     new_state (handle s Reset) = resetConversation s \<and>
     resetConversation s = initial_state now \<and>
     symptoms (resetConversation s) = [] \<and>
     charCount (resetConversation s) = 0 \<and>
     \<not> conversationComplete (resetConversation s) \<and>
     followUpQuestions (resetConversation s) = JArr [] \<and>
     questionAnswers (resetConversation s) = Map.empty \<and>
     extractedData (resetConversation s) = JObj [] \<and>
     \<not> showExtractedData (resetConversation s) \<and>
     webResearchResults (resetConversation s) = JObj [] \<and>
     threadId (resetConversation s) = threadId s \<and>
     stage_of (resetConversation s) = Collecting \<and>
     App pos (resetConversation s) = Inr (InitialFormView [] 0 False)"
proof
  assume a: "run_ui (initial_state now) evs = Some s \<and> stage_of s = Complete"
  with initial_inv have "ui_inv (threadId (initial_state now)) s"
    by (blast intro: run_ui_inv)
  then have l: "\<not> isLoading s" and t: "threadId s = ''thread_'' @ show_nat now"
    by (simp_all add: ui_inv_def initial_state_def)
  have fields: "resetConversation s = initial_state now"
    using l t by (simp add: resetConversation_def initial_state_def)
  have "App pos (initial_state now) = Inr (InitialFormView [] 0 False)"
    by (simp add: App_def collecting_form_def get_prop_def initial_state_def)
  with fields l t show "new_state (handle s Reset) = resetConversation s \<and>
     resetConversation s = initial_state now \<and>
     symptoms (resetConversation s) = [] \<and>
     charCount (resetConversation s) = 0 \<and>
     \<not> conversationComplete (resetConversation s) \<and>
     followUpQuestions (resetConversation s) = JArr [] \<and>
     questionAnswers (resetConversation s) = Map.empty \<and>
     extractedData (resetConversation s) = JObj [] \<and>
     \<not> showExtractedData (resetConversation s) \<and>
     webResearchResults (resetConversation s) = JObj [] \<and>
     threadId (resetConversation s) = threadId s \<and>
     stage_of (resetConversation s) = Collecting \<and>
     App pos (resetConversation s) = Inr (InitialFormView [] 0 False)"
    by (simp add: initial_state_def stage_of_def)
qed

theorem reset_restores_initial_state_witness:
  "run_ui (initial_state 0) (answering @ researching) = Some st_complete \<and>
   stage_of st_complete = Complete \<and>
   webResearchResults st_complete = research_data \<and>
   resetConversation st_complete = initial_state 0 \<and>
   threadId (resetConversation st_complete) = threadId st_complete \<and>
   App example_pos (resetConversation st_complete) = Inr (InitialFormView [] 0 False)"
proof -
  have c: "stage_of st_complete = Complete" "webResearchResults st_complete = research_data"
    by (simp_all add: st_complete_def stage_of_def)
  from reset_restores_initial_state [where now = 0 and evs = "answering @ researching"
      and s = st_complete and pos = example_pos]
    run_ui_to_complete c
  show ?thesis by blast
qed

section \<open>Research\<close>

text \<open>
  Claim C8, amended. For a successful research reply whose body is not \<open>null\<close>,
  \<open>handleWebResearch\<close> stores the reply's \<open>extracted_data\<close> and its
  \<open>web_research_results\<close> (the empty record when that field is falsy), sets
  \<open>conversationComplete\<close>, clears \<open>showExtractedData\<close> and shows no alert: from the
  Extracted stage the controller moves to the Complete stage.
\<close>

theorem research_success_completes:
  "\<not> nullish d \<longrightarrow>
     handleWebResearch s (Resolved d) =
       \<lparr> new_state =
           s\<lparr> conversationComplete := True, showExtractedData := False,
              extractedData := js_prop d ''extracted_data'',
              webResearchResults :=
                (if truthy (js_prop d ''web_research_results'')
                 then js_prop d ''web_research_results'' else JObj []),
              isLoading := False \<rparr>,
         requests = [webResearch (threadId s)], alerts = [], uncaught = None \<rparr> \<and>
     (stage_of s = Extracted \<longrightarrow> stage_of (new_state (handleWebResearch s (Resolved d))) = Complete)"
proof
  assume body: "\<not> nullish d"
  then have read: "get_prop d ''extracted_data'' = Inr (js_prop d ''extracted_data'')"
    by (simp add: get_prop_def)
  have stored: "handleWebResearch_try (s\<lparr> isLoading := True \<rparr>) d =
      (s\<lparr> isLoading := True, conversationComplete := True, showExtractedData := False,
          extractedData := js_prop d ''extracted_data'',
          webResearchResults :=
            (if truthy (js_prop d ''web_research_results'')
             then js_prop d ''web_research_results'' else JObj []) \<rparr>, None)"
    by (simp add: handleWebResearch_try_def read Let_def)
  have out: "handleWebResearch s (Resolved d) =
       \<lparr> new_state =
           s\<lparr> conversationComplete := True, showExtractedData := False,
              extractedData := js_prop d ''extracted_data'',
              webResearchResults :=
                (if truthy (js_prop d ''web_research_results'')
                 then js_prop d ''web_research_results'' else JObj []),
              isLoading := False \<rparr>,
         requests = [webResearch (threadId s)], alerts = [], uncaught = None \<rparr>"
    by (simp add: handleWebResearch_def stored Let_def)
  have "stage_of (new_state (handleWebResearch s (Resolved d))) = Complete"
    by (simp add: out stage_of_def)
  with out show "handleWebResearch s (Resolved d) =
       \<lparr> new_state =
           s\<lparr> conversationComplete := True, showExtractedData := False,
              extractedData := js_prop d ''extracted_data'',
              webResearchResults :=
                (if truthy (js_prop d ''web_research_results'')
                 then js_prop d ''web_research_results'' else JObj []),
              isLoading := False \<rparr>,
         requests = [webResearch (threadId s)], alerts = [], uncaught = None \<rparr> \<and>
     (stage_of s = Extracted \<longrightarrow> stage_of (new_state (handleWebResearch s (Resolved d))) = Complete)"
    by blast
qed

theorem research_success_completes_witness:
  "stage_of st_extracted = Extracted \<and>
   new_state (handleWebResearch st_extracted (Resolved reply_research)) = st_complete \<and>
   extractedData st_complete = headache_data \<and>
   webResearchResults st_complete = research_data \<and>
   stage_of st_complete = Complete"
proof -
  have h: "\<not> nullish reply_research" "stage_of st_extracted = Extracted"
    by (simp_all add: reply_research_def st_extracted_def stage_of_def)
  have c: "extractedData st_complete = headache_data"
    "webResearchResults st_complete = research_data" "stage_of st_complete = Complete"
    by (simp_all add: st_complete_def stage_of_def)
  from research_success_completes [where s = st_extracted and d = reply_research] h c
  show ?thesis
    by (simp add: reply_research_def research_data_def st_extracted_def st_complete_def)
qed

text \<open>
  The claim as stated fails for a successful reply whose body is \<open>null\<close>: the two flags
  are set before \<open>response.data.extracted_data\<close> throws, so the controller enters the
  Complete stage while nothing of the reply is stored, the extracted data and the research
  results stay as they were, and the failure alert is shown.
\<close>

theorem research_null_body_counterexample:
  "stage_of st_extracted = Extracted \<and>
   handleWebResearch st_extracted (Resolved JNull) =
     \<lparr> new_state = st_extracted\<lparr> conversationComplete := True, showExtractedData := False \<rparr>,
       requests = [Post ''/api/web-research'' [(''thread_id'', ''thread_0'')]],
       alerts = [''Web research failed. Please try again.''], uncaught = None \<rparr> \<and>
   stage_of (new_state (handleWebResearch st_extracted (Resolved JNull))) = Complete \<and>
   extractedData (new_state (handleWebResearch st_extracted (Resolved JNull))) =
     extractedData st_extracted \<and>
   webResearchResults (new_state (handleWebResearch st_extracted (Resolved JNull))) = JObj []"
  by (simp add: st_extracted_def handler_defs stage_of_def Let_def)

section \<open>The stage flags\<close>

text \<open>
  Claim C9. In every state that the component reaches from the initial state by completed
  handler invocations (input, answers, submit, follow-up submit, research, reset, each run
  from the screen that wires it), \<open>conversationComplete\<close> and \<open>showExtractedData\<close> are
  not both true, and when \<open>conversationComplete\<close> is true the list of follow-up questions
  is empty.
\<close>

theorem flags_exclusive_in_ui_sessions:
  "run_ui (initial_state now) evs = Some s \<longrightarrow>
     \<not> (conversationComplete s \<and> showExtractedData s) \<and>
     (conversationComplete s \<longrightarrow> followUpQuestions s = JArr [])"
proof
  assume "run_ui (initial_state now) evs = Some s"
  with initial_inv have "ui_inv (threadId (initial_state now)) s"
    by (rule run_ui_inv)
  then show "\<not> (conversationComplete s \<and> showExtractedData s) \<and>
     (conversationComplete s \<longrightarrow> followUpQuestions s = JArr [])"
    by (simp add: ui_inv_def)
qed

theorem flags_exclusive_in_ui_sessions_witness:
  "run_ui (initial_state 0) (answering @ researching) = Some st_complete \<and>
   conversationComplete st_complete \<and> \<not> showExtractedData st_complete \<and>
   followUpQuestions st_complete = JArr []"
proof -
  have c: "conversationComplete st_complete"
    by (simp add: st_complete_def)
  from flags_exclusive_in_ui_sessions [of 0 "answering @ researching" st_complete]
    run_ui_to_complete c
  show ?thesis by blast
qed

section \<open>Missing fields of a reply\<close>

text \<open>
  Claim C10. \<open>handleWebResearch\<close> stores the empty record when the reply has no
  \<open>web_research_results\<close>. Both analyze handlers store \<open>extracted_data\<close> as it is: for
  a reply with a truthy \<open>is_complete\<close> or with \<open>status\<close> \<open>extracted\<close> that has no
  \<open>extracted_data\<close>, the stored extracted data is \<open>undefined\<close>, not the empty record,
  and the screen that follows throws a \<open>TypeError\<close> when it reads the fields.
\<close>

theorem missing_extracted_data_unguarded:
  "(map_of kvs ''web_research_results'' = None \<longrightarrow>
      webResearchResults (new_state (handleWebResearch s (Resolved (JObj kvs)))) = JObj []) \<and>
   (map_of kvs ''extracted_data'' = None \<and>
    (truthy (js_prop (JObj kvs) ''is_complete'') \<or> js_prop (JObj kvs) ''status'' = JStr ''extracted'') \<and>
    (e = Submit (Resolved (JObj kvs)) \<or> e = FollowUpSubmit (Resolved (JObj kvs))) \<and>
    requests (handle s e) \<noteq> [] \<longrightarrow>
      extractedData (new_state (handle s e)) = JUndefined \<and>
      extractedData (new_state (handle s e)) \<noteq> JObj [] \<and>
      stage_of (new_state (handle s e)) \<noteq> Collecting \<and>
      App pos (new_state (handle s e)) = Inl TypeError)"
proof (intro conjI impI)
  assume "map_of kvs ''web_research_results'' = None"
  then show "webResearchResults (new_state (handleWebResearch s (Resolved (JObj kvs)))) = JObj []"
    by (simp add: handleWebResearch_def handleWebResearch_try_def get_prop_def Let_def)
next
  let ?d = "JObj kvs"
  let ?s' = "new_state (handle s e)"
  assume a: "map_of kvs ''extracted_data'' = None \<and>
    (truthy (js_prop ?d ''is_complete'') \<or> js_prop ?d ''status'' = JStr ''extracted'') \<and>
    (e = Submit (Resolved ?d) \<or> e = FollowUpSubmit (Resolved ?d)) \<and>
    requests (handle s e) \<noteq> []"
  then have st: "?s' =
      (if truthy (js_prop ?d ''is_complete'') then
        s\<lparr> conversationComplete := True, followUpQuestions := JArr [],
           extractedData := js_prop ?d ''extracted_data'', showExtractedData := False,
           isLoading := False \<rparr>
      else
        s\<lparr> showExtractedData := True, extractedData := js_prop ?d ''extracted_data'',
           followUpQuestions := JArr [], isLoading := False \<rparr>)"
    using handleSubmit_new_state [of s ?d] handleFollowUpSubmit_new_state [of s ?d]
    by auto
  from a have u: "js_prop ?d ''extracted_data'' = JUndefined"
    by simp
  from st u show ed: "extractedData ?s' = JUndefined"
    by (simp split: if_splits)
  then show "extractedData ?s' \<noteq> JObj []"
    by simp
  from st show "stage_of ?s' \<noteq> Collecting"
    by (simp add: stage_of_def split: if_splits)
  then show "App pos ?s' = Inl TypeError"
    by (simp add: App_def stage_of_def ed extracted_items_undefined split: if_splits)
qed

theorem missing_extracted_data_unguarded_witness:
  "webResearchResults (new_state (handleWebResearch st_extracted
      (Resolved (JObj [(''extracted_data'', headache_data)])))) = JObj [] \<and>
   extractedData (new_state (handle st_typed (Submit (Resolved (JObj [(''is_complete'', JBool True)]))))) =
     JUndefined \<and>
   App example_pos (new_state (handle st_typed (Submit (Resolved (JObj [(''is_complete'', JBool True)]))))) =
     Inl TypeError \<and>
   extractedData (new_state (handle st_answered
      (FollowUpSubmit (Resolved (JObj [(''status'', JStr ''extracted'')]))))) = JUndefined \<and>
   App example_pos (new_state (handle st_answered
      (FollowUpSubmit (Resolved (JObj [(''status'', JStr ''extracted'')]))))) = Inl TypeError"
proof -
  from missing_extracted_data_unguarded
      [where kvs = "[(''extracted_data'', headache_data)]" and s = st_extracted]
  have one: "webResearchResults (new_state (handleWebResearch st_extracted
      (Resolved (JObj [(''extracted_data'', headache_data)])))) = JObj []"
    by simp
  from missing_extracted_data_unguarded
      [where kvs = "[(''is_complete'', JBool True)]" and s = st_typed
        and e = "Submit (Resolved (JObj [(''is_complete'', JBool True)]))" and pos = example_pos]
    requests_typed
  have two: "extractedData (new_state (handle st_typed (Submit (Resolved (JObj [(''is_complete'', JBool True)]))))) =
     JUndefined \<and>
   App example_pos (new_state (handle st_typed (Submit (Resolved (JObj [(''is_complete'', JBool True)]))))) =
     Inl TypeError"
    by simp
  from missing_extracted_data_unguarded
      [where kvs = "[(''status'', JStr ''extracted'')]" and s = st_answered
        and e = "FollowUpSubmit (Resolved (JObj [(''status'', JStr ''extracted'')]))"
        and pos = example_pos]
    requests_answered
  have three: "extractedData (new_state (handle st_answered
      (FollowUpSubmit (Resolved (JObj [(''status'', JStr ''extracted'')]))))) = JUndefined \<and>
   App example_pos (new_state (handle st_answered
      (FollowUpSubmit (Resolved (JObj [(''status'', JStr ''extracted'')]))))) = Inl TypeError"
    by simp
  from one two three show ?thesis
    by blast
qed

end
